theory Spec2Isabelle
  imports Main "HOL-Library.AList"
begin

section \<open>JavaScript values\<close>

text \<open>
  The network client of \<^verbatim>\<open>web/src/client/network/index.js\<close> works on the values that
  \<^verbatim>\<open>response.json()\<close> decodes and on the objects it builds from them. An object is an
  association list in insertion order; a property that is read and is not there is
  \<open>JUndefined\<close>. Numbers are the integers a prefix length or a metric can be. Two
  things are left out: the place JavaScript gives to integer-like keys when it
  enumerates an object, and the exponent notation it prints for integers of more than
  21 digits. The client depends on neither.
\<close>

datatype json =
    JUndefined
  | JNull
  | JBool bool
  | JNum int
  | JStr string
  | JArr "json list"
  | JObj "(string \<times> json) list"

text \<open>
  Every \<^verbatim>\<open>throw\<close> and every rejected promise is a value: \<open>TypeError\<close> for a property
  read on \<^verbatim>\<open>null\<close>/\<^verbatim>\<open>undefined\<close> and for a call of something that is not a function,
  \<open>SyntaxError\<close> for a body that does not decode, \<open>NetworkError\<close> for a request that is
  rejected by the transport, \<open>ValidationError\<close> for malformed wire data.
\<close>

datatype error = TypeError | SyntaxError | NetworkError | ValidationError

text \<open>\<^verbatim>\<open>if (v)\<close> and \<^verbatim>\<open>v || d\<close>: the falsy values are undefined, null, false, 0 and "".\<close>

fun truthy :: "json \<Rightarrow> bool" where
  "truthy JUndefined = False"
| "truthy JNull = False"
| "truthy (JBool b) = b"
| "truthy (JNum n) = (n \<noteq> 0)"
| "truthy (JStr s) = (s \<noteq> [])"
| "truthy (JArr xs) = True"
| "truthy (JObj kvs) = True"

definition js_or :: "json \<Rightarrow> json \<Rightarrow> json" where
  "js_or v d = (if truthy v then v else d)"

fun nullish :: "json \<Rightarrow> bool" where
  "nullish JUndefined = True"
| "nullish JNull = True"
| "nullish v = False"

text \<open>
  \<^verbatim>\<open>v.k\<close> on a value that is neither null nor undefined. The client reads the names
  nameservers, addresses, ipConfig, routes4, routes6, destination, wireless, bond, vlan,
  iface, gateway4, gateway6, id, security, password, hidden, mode, ssid, hw_address,
  strength, flags, wpa_flags and rsn_flags only; none of them is a built-in property of
  a string, a number, a boolean or an array, so the read gives undefined there.
\<close>

fun lookup :: "json \<Rightarrow> string \<Rightarrow> json" where
  "lookup (JObj kvs) k = (case map_of kvs k of None \<Rightarrow> JUndefined | Some v \<Rightarrow> v)"
| "lookup v k = JUndefined"

text \<open>\<^verbatim>\<open>v.k\<close>: a TypeError on null and undefined.\<close>

definition get_prop :: "json \<Rightarrow> string \<Rightarrow> error + json" where
  "get_prop v k = (if nullish v then Inl TypeError else Inr (lookup v k))"

text \<open>\<^verbatim>\<open>v?.k\<close>: undefined on null and undefined.\<close>

definition opt_prop :: "json \<Rightarrow> string \<Rightarrow> json" where
  "opt_prop v k = (if nullish v then JUndefined else lookup v k)"

subsection \<open>Decimal numerals\<close>

definition digit_char :: "nat \<Rightarrow> char" where
  "digit_char d = ''0123456789'' ! d"

definition digit_value :: "char \<Rightarrow> nat option" where
  "digit_value c = map_of (zip ''0123456789'' [0, 1, 2, 3, 4, 5, 6, 7, 8, 9]) c"

text \<open>The decimal numeral of a natural number, as a template literal prints it.\<close>

fun dec :: "nat \<Rightarrow> string" where
  "dec n = (if n < 10 then [digit_char n] else dec (n div 10) @ [digit_char (n mod 10)])"

definition num_to_string :: "int \<Rightarrow> string" where
  "num_to_string i = (if i < 0 then CHR ''-'' # dec (nat (- i)) else dec (nat i))"

text \<open>The value of a string of digits, read left to right; \<open>None\<close> when a character is no digit.\<close>

fun digits_value :: "nat \<Rightarrow> string \<Rightarrow> nat option" where
  "digits_value acc [] = Some acc"
| "digits_value acc (c # cs) =
     (case digit_value c of None \<Rightarrow> None | Some d \<Rightarrow> digits_value (10 * acc + d) cs)"

definition parse_nat :: "string \<Rightarrow> nat option" where
  "parse_nat s = (if s = [] then None else digits_value 0 s)"

text \<open>An integer literal: digits only, no leading zero other than the numeral 0 itself.\<close>

definition int_literal :: "string \<Rightarrow> nat option" where
  "int_literal s = (if 1 < length s \<and> hd s = CHR ''0'' then None else parse_nat s)"

subsection \<open>Strings, arrays and object literals\<close>

text \<open>
  \<^verbatim>\<open>s.split(c)\<close> with a separator of one character. The result is never the empty
  list (\<open>split_nonempty\<close> below), so its head, the \<^verbatim>\<open>ip\<close> of the destructuring
  \<^verbatim>\<open>const [ip, netmask] = ...\<close>, is always there.
\<close>

fun split :: "char \<Rightarrow> string \<Rightarrow> string list" where
  "split c [] = [[]]"
| "split c (x # xs) =
     (if x = c then [] # split c xs
      else (case split c xs of [] \<Rightarrow> [[x]] | p # ps \<Rightarrow> (x # p) # ps))"

text \<open>\<^verbatim>\<open>const [ip, netmask] = parts\<close>: the second element, or undefined when there is none.\<close>

fun second :: "string list \<Rightarrow> json" where
  "second (a # b # rest) = JStr b"
| "second parts = JUndefined"

text \<open>The own enumerable properties that \<^verbatim>\<open>{...v}\<close> and a rest pattern copy.\<close>

fun indexed :: "nat \<Rightarrow> json list \<Rightarrow> (string \<times> json) list" where
  "indexed i [] = []"
| "indexed i (x # xs) = (dec i, x) # indexed (Suc i) xs"

fun own_props :: "json \<Rightarrow> (string \<times> json) list" where
  "own_props (JObj kvs) = kvs"
| "own_props (JArr xs) = indexed 0 xs"
| "own_props (JStr s) = indexed 0 (map (\<lambda>c. JStr [c]) s)"
| "own_props v = []"

text \<open>\<^verbatim>\<open>{...target, ...source}\<close>: each property of the source is written in turn.\<close>

definition spread :: "(string \<times> json) list \<Rightarrow> (string \<times> json) list \<Rightarrow> (string \<times> json) list" where
  "spread source target = foldl (\<lambda>acc kv. AList.update (fst kv) (snd kv) acc) target source"

text \<open>\<^verbatim>\<open>xs.map(f)\<close> on a list, left to right, stopping at the first throw.\<close>

fun map_result :: "(json \<Rightarrow> error + json) \<Rightarrow> json list \<Rightarrow> error + json list" where
  "map_result f [] = Inr []"
| "map_result f (x # xs) =
     (case f x of Inl e \<Rightarrow> Inl e
      | Inr y \<Rightarrow> (case map_result f xs of Inl e \<Rightarrow> Inl e | Inr ys \<Rightarrow> Inr (y # ys)))"

text \<open>\<^verbatim>\<open>v.map(f)\<close>: only an array has the method.\<close>

fun js_map :: "(json \<Rightarrow> error + json) \<Rightarrow> json \<Rightarrow> error + json" where
  "js_map f (JArr xs) = (case map_result f xs of Inl e \<Rightarrow> Inl e | Inr ys \<Rightarrow> Inr (JArr ys))"
| "js_map f v = Inl TypeError"

section \<open>The address codec of \<^verbatim>\<open>./utils\<close>\<close>

text \<open>
  Modelled from the spec: the module \<^verbatim>\<open>./utils\<close>, from which the client imports
  \<^verbatim>\<open>ipPrefixFor\<close> and \<^verbatim>\<open>formatIp\<close>, is not among the sources. This section follows
  section 4.1 of the specification. First the 32-bit value of four octets, the number
  of its leading one bits, and the mask that has exactly \<open>n\<close> leading one bits.
\<close>

definition mask_value :: "nat \<Rightarrow> nat \<Rightarrow> nat \<Rightarrow> nat \<Rightarrow> nat" where
  "mask_value a b c d = ((a * 256 + b) * 256 + c) * 256 + d"

fun leading_ones :: "nat \<Rightarrow> nat \<Rightarrow> nat" where
  "leading_ones 0 v = 0"
| "leading_ones (Suc k) v = (if odd (v div 2 ^ k) then Suc (leading_ones k v) else 0)"

definition prefix_mask :: "nat \<Rightarrow> nat" where
  "prefix_mask n = 2 ^ 32 - 2 ^ (32 - n)"

definition contiguous :: "nat \<Rightarrow> bool" where
  "contiguous v = (v = prefix_mask (leading_ones 32 v))"

fun octet :: "string \<Rightarrow> nat option" where
  "octet s = (case parse_nat s of None \<Rightarrow> None | Some n \<Rightarrow> if n \<le> 255 then Some n else None)"

text \<open>A dotted netmask: four octets separated by dots.\<close>

fun dotted :: "string \<Rightarrow> nat option" where
  "dotted s =
     (case map octet (split CHR ''.'' s) of
        [Some a, Some b, Some c, Some d] \<Rightarrow> Some (mask_value a b c d)
      | _ \<Rightarrow> None)"

text \<open>
  Modelled from the spec: \<^verbatim>\<open>ipPrefixFor\<close> is imported from \<^verbatim>\<open>./utils\<close>, which is not
  among the sources. The specification (section 4.1): the part after the slash is the
  prefix itself when it is a small integer literal (0 to 32 for IPv4, 0 to 128 for
  IPv6); a dotted netmask is converted to its prefix length by counting the leading one
  bits of the 32-bit value; a non-contiguous mask is malformed input and fails loudly.
  Section 7: no best-guess value is substituted for an unparseable prefix, so whatever
  else it is given is a validation failure too. The function is given the part after the
  slash only, not the family of the address: an integer literal is accepted up to 128.
\<close>

definition ipPrefixFor :: "json \<Rightarrow> error + json" where
  "ipPrefixFor v =
     (case v of
        JStr s \<Rightarrow>
          (case int_literal s of
             Some n \<Rightarrow> if n \<le> 128 then Inr (JNum (int n)) else Inl ValidationError
           | None \<Rightarrow>
               (case dotted s of
                  Some m \<Rightarrow>
                    if contiguous m then Inr (JNum (int (leading_ones 32 m)))
                    else Inl ValidationError
                | None \<Rightarrow> Inl ValidationError))
      | _ \<Rightarrow> Inl ValidationError)"

text \<open>
  Modelled from the spec: \<^verbatim>\<open>formatIp\<close> is imported from \<^verbatim>\<open>./utils\<close>, which is not
  among the sources. The specification (section 4.1): given an address and a prefix it
  produces "address/prefix", given an address alone it produces "address". An argument
  that is no IPAddress (section 3: a string address, an optional integer prefix) is a
  validation failure.
\<close>

definition formatIp :: "json \<Rightarrow> error + json" where
  "formatIp addr =
     (case lookup addr ''address'' of
        JStr a \<Rightarrow>
          (case lookup addr ''prefix'' of
             JUndefined \<Rightarrow> Inr (JStr a)
           | JNum p \<Rightarrow> Inr (JStr (a @ CHR ''/'' # num_to_string p))
           | _ \<Rightarrow> Inl ValidationError)
      | _ \<Rightarrow> Inl ValidationError)"

section \<open>Wire to domain\<close>

text \<open>
  The function mapped over \<^verbatim>\<open>addresses\<close>, the same in \<^verbatim>\<open>fromApiDevice\<close> and in
  \<^verbatim>\<open>fromApiConnection\<close>:
  \<^verbatim>\<open>
  (address) => {
    const [ip, netmask] = address.split("/");
    if (netmask !== undefined) {
      return { address: ip, prefix: ipPrefixFor(netmask) };
    } else {
      return { address: ip };
    }
  }
  \<close>
  The imported \<^verbatim>\<open>ipPrefixFor\<close> is the parameter \<open>prefixFor\<close>.
\<close>

definition fromApiAddress :: "(json \<Rightarrow> error + json) \<Rightarrow> json \<Rightarrow> error + json" where
  "fromApiAddress prefixFor address =
     (case address of
        JStr s \<Rightarrow>
          (let parts = split CHR ''/'' s; ip = hd parts; netmask = second parts in
           if netmask \<noteq> JUndefined then
             (case prefixFor netmask of
                Inl e \<Rightarrow> Inl e
              | Inr n \<Rightarrow> Inr (JObj [(''address'', JStr ip), (''prefix'', n)]))
           else Inr (JObj [(''address'', JStr ip)]))
      | _ \<Rightarrow> Inl TypeError)"

text \<open>
  The function mapped over \<^verbatim>\<open>routes4\<close>: no test of the netmask.
  \<^verbatim>\<open>
  (route) => {
    const [ip, netmask] = route.destination.split("/");
    const destination = { address: ip, prefix: ipPrefixFor(netmask) };
    return { ...route, destination };
  }
  \<close>
\<close>

definition route4 :: "(json \<Rightarrow> error + json) \<Rightarrow> json \<Rightarrow> error + json" where
  "route4 prefixFor route =
     (case get_prop route ''destination'' of
        Inl e \<Rightarrow> Inl e
      | Inr (JStr s) \<Rightarrow>
          (let parts = split CHR ''/'' s; ip = hd parts; netmask = second parts in
           case prefixFor netmask of
             Inl e \<Rightarrow> Inl e
           | Inr n \<Rightarrow>
               Inr (JObj (AList.update ''destination''
                            (JObj [(''address'', JStr ip), (''prefix'', n)]) (own_props route))))
      | Inr _ \<Rightarrow> Inl TypeError)"

text \<open>
  The function mapped over \<^verbatim>\<open>routes6\<close>:
  \<^verbatim>\<open>
  (route) => {
    const [ip, netmask] = route.destination.split("/");
    const destination = (netmask !== undefined)
      ? { address: ip, prefix: ipPrefixFor(netmask) } : { address: ip };
    return { ...route, destination };
  }
  \<close>
\<close>

definition route6 :: "(json \<Rightarrow> error + json) \<Rightarrow> json \<Rightarrow> error + json" where
  "route6 prefixFor route =
     (case get_prop route ''destination'' of
        Inl e \<Rightarrow> Inl e
      | Inr (JStr s) \<Rightarrow>
          (let parts = split CHR ''/'' s; ip = hd parts; netmask = second parts in
           if netmask \<noteq> JUndefined then
             (case prefixFor netmask of
                Inl e \<Rightarrow> Inl e
              | Inr n \<Rightarrow>
                  Inr (JObj (AList.update ''destination''
                               (JObj [(''address'', JStr ip), (''prefix'', n)]) (own_props route))))
           else
             Inr (JObj (AList.update ''destination''
                          (JObj [(''address'', JStr ip)]) (own_props route))))
      | Inr _ \<Rightarrow> Inl TypeError)"

text \<open>
  \<^verbatim>\<open>
  fromApiDevice(device) {
    const nameservers = (device?.ipConfig?.nameservers || []);
    const { ipConfig = {}, ...dev } = device;
    const routes4 = (ipConfig.routes4 || []).map(...);
    const routes6 = (ipConfig.routes6 || []).map(...);
    const addresses = (ipConfig.addresses || []).map(...);
    return { ...dev, ...ipConfig, addresses, nameservers, routes4, routes6 };
  }
  \<close>
  The default \<^verbatim>\<open>{}\<close> stands in for an undefined \<^verbatim>\<open>ipConfig\<close> only, not for null.
\<close>

definition fromApiDevice :: "(json \<Rightarrow> error + json) \<Rightarrow> json \<Rightarrow> error + json" where
  "fromApiDevice prefixFor device =
     (let nameservers = js_or (opt_prop (opt_prop device ''ipConfig'') ''nameservers'') (JArr []) in
      if nullish device then Inl TypeError
      else
        let ipConfig = (if lookup device ''ipConfig'' = JUndefined then JObj []
                        else lookup device ''ipConfig'');
            dev = AList.delete ''ipConfig'' (own_props device)
        in
        (case get_prop ipConfig ''routes4'' of
           Inl e \<Rightarrow> Inl e
         | Inr r4 \<Rightarrow>
        (case js_map (route4 prefixFor) (js_or r4 (JArr [])) of
           Inl e \<Rightarrow> Inl e
         | Inr routes4 \<Rightarrow>
        (case js_map (route6 prefixFor) (js_or (lookup ipConfig ''routes6'') (JArr [])) of
           Inl e \<Rightarrow> Inl e
         | Inr routes6 \<Rightarrow>
        (case js_map (fromApiAddress prefixFor) (js_or (lookup ipConfig ''addresses'') (JArr [])) of
           Inl e \<Rightarrow> Inl e
         | Inr addresses \<Rightarrow>
             Inr (JObj (AList.update ''routes6'' routes6
                       (AList.update ''routes4'' routes4
                       (AList.update ''nameservers'' nameservers
                       (AList.update ''addresses'' addresses
                       (spread (own_props ipConfig) dev)))))))))))"

text \<open>
  \<^verbatim>\<open>
  fromApiConnection(connection) {
    const nameservers = (connection.nameservers || []);
    const addresses = (connection.addresses || []).map(...);
    return { ...connection, addresses, nameservers };
  }
  \<close>
\<close>

definition fromApiConnection :: "(json \<Rightarrow> error + json) \<Rightarrow> json \<Rightarrow> error + json" where
  "fromApiConnection prefixFor connection =
     (case get_prop connection ''nameservers'' of
        Inl e \<Rightarrow> Inl e
      | Inr ns \<Rightarrow>
          (let nameservers = js_or ns (JArr []) in
           case js_map (fromApiAddress prefixFor) (js_or (lookup connection ''addresses'') (JArr [])) of
             Inl e \<Rightarrow> Inl e
           | Inr addresses \<Rightarrow>
               Inr (JObj (AList.update ''nameservers'' nameservers
                         (AList.update ''addresses'' addresses (own_props connection))))))"

text \<open>
  The members of \<^verbatim>\<open>ConnectionTypes\<close> (declared in \<^verbatim>\<open>./model\<close>) that the classifier
  returns.
\<close>

datatype ConnectionTypes = ETHERNET | WIFI | LOOPBACK | BOND | VLAN

text \<open>
  \<^verbatim>\<open>
  connectionType(connection) {
    if (connection.wireless) return ConnectionTypes.WIFI;
    if (connection.bond) return ConnectionTypes.BOND;
    if (connection.vlan) return ConnectionTypes.VLAN;
    if (connection.iface === "lo") return ConnectionTypes.LOOPBACK;
    return ConnectionTypes.ETHERNET;
  }
  \<close>
\<close>

definition connectionType :: "json \<Rightarrow> error + ConnectionTypes" where
  "connectionType connection =
     (if nullish connection then Inl TypeError
      else if truthy (lookup connection ''wireless'') then Inr WIFI
      else if truthy (lookup connection ''bond'') then Inr BOND
      else if truthy (lookup connection ''vlan'') then Inr VLAN
      else if lookup connection ''iface'' = JStr ''lo'' then Inr LOOPBACK
      else Inr ETHERNET)"

section \<open>Domain to wire\<close>

text \<open>
  \<^verbatim>\<open>g?.trim() !== ""\<close>: true on null and undefined, a TypeError on a value without the
  method. The white space that \<^verbatim>\<open>trim\<close> removes is modelled by its ASCII characters.
\<close>

definition is_space :: "char \<Rightarrow> bool" where
  "is_space c = (c \<in> set [CHR 0x09, CHR 0x0A, CHR 0x0B, CHR 0x0C, CHR 0x0D, CHR '' ''])"

definition not_blank :: "json \<Rightarrow> error + bool" where
  "not_blank g =
     (if nullish g then Inr True
      else case g of JStr s \<Rightarrow> Inr (\<not> list_all is_space s) | _ \<Rightarrow> Inl TypeError)"

text \<open>
  \<^verbatim>\<open>
  toApiConnection(connection) {
    const addresses = (connection.addresses || []).map((addr) => formatIp(addr));
    const { iface, gateway4, gateway6, ...conn } = connection;
    if (gateway4?.trim() !== "") conn.gateway4 = gateway4;
    if (gateway6?.trim() !== "") conn.gateway6 = gateway6;
    return { ...conn, addresses, interface: iface };
  }
  \<close>
  The imported \<^verbatim>\<open>formatIp\<close> is the parameter \<open>format\<close>.
\<close>

definition toApiConnection :: "(json \<Rightarrow> error + json) \<Rightarrow> json \<Rightarrow> error + json" where
  "toApiConnection format connection =
     (case get_prop connection ''addresses'' of
        Inl e \<Rightarrow> Inl e
      | Inr as \<Rightarrow>
          (case js_map format (js_or as (JArr [])) of
             Inl e \<Rightarrow> Inl e
           | Inr addresses \<Rightarrow>
               (let iface = lookup connection ''iface'';
                    gateway4 = lookup connection ''gateway4'';
                    gateway6 = lookup connection ''gateway6'';
                    conn = AList.delete ''gateway6'' (AList.delete ''gateway4''
                             (AList.delete ''iface'' (own_props connection)))
                in
                case not_blank gateway4 of
                  Inl e \<Rightarrow> Inl e
                | Inr b4 \<Rightarrow>
                    (let conn4 = (if b4 then AList.update ''gateway4'' gateway4 conn else conn) in
                     case not_blank gateway6 of
                       Inl e \<Rightarrow> Inl e
                     | Inr b6 \<Rightarrow>
                         (let conn6 = (if b6 then AList.update ''gateway6'' gateway6 conn4
                                       else conn4)
                          in Inr (JObj (AList.update ''interface'' iface
                                         (AList.update ''addresses'' addresses conn6))))))))"

section \<open>The transport and the client\<close>

text \<open>
  The HTTP client is a collaborator: \<^verbatim>\<open>get\<close>, \<^verbatim>\<open>post\<close>, \<^verbatim>\<open>put\<close> and \<^verbatim>\<open>delete\<close> each
  resolve to a response with an \<^verbatim>\<open>ok\<close> flag and a body, or reject. Its answer may depend
  on every request sent before. The state of the client's world is the list of the
  requests it has sent, in order, and what it has written with \<^verbatim>\<open>console.error\<close>.
\<close>

datatype http_method = GET | POST | PUT | DELETE

record request =
  verb :: http_method
  path :: string
  payload :: json

record response =
  ok :: bool
  body :: "json option"

type_synonym transport = "request list \<Rightarrow> request \<Rightarrow> error + response"

record world =
  sent :: "request list"
  console :: "(string \<times> response) list"

definition send :: "transport \<Rightarrow> http_method \<Rightarrow> string \<Rightarrow> json \<Rightarrow> world \<Rightarrow> (error + response) \<times> world" where
  "send t m p b w =
     (let rq = \<lparr>verb = m, path = p, payload = b\<rparr>
      in (t (sent w) rq, w\<lparr>sent := sent w @ [rq]\<rparr>))"

definition console_error :: "string \<Rightarrow> response \<Rightarrow> world \<Rightarrow> world" where
  "console_error msg r w = w\<lparr>console := console w @ [(msg, r)]\<rparr>"

text \<open>\<^verbatim>\<open>response.json()\<close> rejects when the body does not decode.\<close>

definition response_json :: "response \<Rightarrow> error + json" where
  "response_json r = (case body r of None \<Rightarrow> Inl SyntaxError | Some v \<Rightarrow> Inr v)"

text \<open>What a template literal prints for a value.\<close>

fun join :: "string list \<Rightarrow> string" where
  "join [] = []"
| "join [s] = s"
| "join (s # ss) = s @ CHR '','' # join ss"

fun to_string :: "json \<Rightarrow> string" where
  "to_string JUndefined = ''undefined''"
| "to_string JNull = ''null''"
| "to_string (JBool b) = (if b then ''true'' else ''false'')"
| "to_string (JNum n) = num_to_string n"
| "to_string (JStr s) = s"
| "to_string (JArr xs) = join (map (\<lambda>x. if nullish x then [] else to_string x) xs)"
| "to_string (JObj kvs) = ''[object Object]''"

text \<open>
  \<^verbatim>\<open>
  async devices() {
    const response = await this.client.get("/network/devices");
    if (!response.ok) {
      return [];
    }
    const devices = await response.json();
    return devices.map(this.fromApiDevice);
  }
  \<close>
\<close>

definition devices :: "(json \<Rightarrow> error + json) \<Rightarrow> transport \<Rightarrow> world \<Rightarrow> (error + json) \<times> world" where
  "devices prefixFor t w =
     (case send t GET ''/network/devices'' JUndefined w of
        (Inl e, w1) \<Rightarrow> (Inl e, w1)
      | (Inr response, w1) \<Rightarrow>
          if \<not> ok response then (Inr (JArr []), w1)
          else (case response_json response of
                  Inl e \<Rightarrow> (Inl e, w1)
                | Inr ds \<Rightarrow> (js_map (fromApiDevice prefixFor) ds, w1)))"

text \<open>
  \<^verbatim>\<open>
  async connections() {
    const response = await this.client.get("/network/connections");
    if (!response.ok) {
      console.error("Failed to get list of connections", response);
      return [];
    }
    const connections = await response.json();
    return connections.map(this.fromApiConnection);
  }
  \<close>
\<close>

definition connections :: "(json \<Rightarrow> error + json) \<Rightarrow> transport \<Rightarrow> world \<Rightarrow> (error + json) \<times> world" where
  "connections prefixFor t w =
     (case send t GET ''/network/connections'' JUndefined w of
        (Inl e, w1) \<Rightarrow> (Inl e, w1)
      | (Inr response, w1) \<Rightarrow>
          if \<not> ok response then
            (Inr (JArr []), console_error ''Failed to get list of connections'' response w1)
          else (case response_json response of
                  Inl e \<Rightarrow> (Inl e, w1)
                | Inr cs \<Rightarrow> (js_map (fromApiConnection prefixFor) cs, w1)))"

text \<open>
  The function mapped over the access points; \<^verbatim>\<open>createAccessPoint\<close> (of \<^verbatim>\<open>./model\<close>) and
  \<^verbatim>\<open>securityFromFlags\<close> (of \<^verbatim>\<open>./network_manager\<close>) are the parameters.
  \<^verbatim>\<open>
  (ap) => {
    return createAccessPoint({
      ssid: ap.ssid,
      hwAddress: ap.hw_address,
      strength: ap.strength,
      security: securityFromFlags(ap.flags, ap.wpa_flags, ap.rsn_flags)
    });
  }
  \<close>
\<close>

definition fromApiAccessPoint ::
  "(json \<Rightarrow> error + json) \<Rightarrow> (json \<Rightarrow> json \<Rightarrow> json \<Rightarrow> error + json) \<Rightarrow> json \<Rightarrow> error + json" where
  "fromApiAccessPoint createAccessPoint securityFromFlags ap =
     (if nullish ap then Inl TypeError
      else case securityFromFlags (lookup ap ''flags'') (lookup ap ''wpa_flags'')
                  (lookup ap ''rsn_flags'') of
             Inl e \<Rightarrow> Inl e
           | Inr security \<Rightarrow>
               createAccessPoint (JObj [(''ssid'', lookup ap ''ssid''),
                                        (''hwAddress'', lookup ap ''hw_address''),
                                        (''strength'', lookup ap ''strength''),
                                        (''security'', security)]))"

text \<open>
  \<^verbatim>\<open>
  async accessPoints() {
    const response = await this.client.get("/network/wifi");
    if (!response.ok) {
      console.error("Failed to get list of APs", response);
      return [];
    }
    const access_points = await response.json();
    return access_points.map((ap) => { ... });
  }
  \<close>
\<close>

definition accessPoints ::
  "(json \<Rightarrow> error + json) \<Rightarrow> (json \<Rightarrow> json \<Rightarrow> json \<Rightarrow> error + json) \<Rightarrow> transport \<Rightarrow> world
     \<Rightarrow> (error + json) \<times> world" where
  "accessPoints createAccessPoint securityFromFlags t w =
     (case send t GET ''/network/wifi'' JUndefined w of
        (Inl e, w1) \<Rightarrow> (Inl e, w1)
      | (Inr response, w1) \<Rightarrow>
          if \<not> ok response then
            (Inr (JArr []), console_error ''Failed to get list of APs'' response w1)
          else (case response_json response of
                  Inl e \<Rightarrow> (Inl e, w1)
                | Inr aps \<Rightarrow>
                    (js_map (fromApiAccessPoint createAccessPoint securityFromFlags) aps, w1)))"

text \<open>
  \<^verbatim>\<open>
  async settings() {
    const response = await this.client.get("/network/settings");
    if (!response.ok) {
      console.error("Failed to get settings", response);
      return {};
    }
    return response.json();
  }
  \<close>
\<close>

definition settings :: "transport \<Rightarrow> world \<Rightarrow> (error + json) \<times> world" where
  "settings t w =
     (case send t GET ''/network/settings'' JUndefined w of
        (Inl e, w1) \<Rightarrow> (Inl e, w1)
      | (Inr response, w1) \<Rightarrow>
          if \<not> ok response then
            (Inr (JObj []), console_error ''Failed to get settings'' response w1)
          else (response_json response, w1))"

text \<open>
  \<^verbatim>\<open>
  async apply() {
    return this.client.put("/network/system/apply", {});
  }
  \<close>
\<close>

definition apply_changes :: "transport \<Rightarrow> world \<Rightarrow> (error + response) \<times> world" where
  "apply_changes t w = send t PUT ''/network/system/apply'' (JObj []) w"

text \<open>
  \<^verbatim>\<open>
  async addConnection(connection) {
    const response = await this.client.post("/network/connections", this.toApiConnection(connection));
    if (!response.ok) {
      console.error("Failed to post list of connections", response);
      return null;
    }
    return response.json();
  }
  \<close>
\<close>

definition addConnection ::
  "(json \<Rightarrow> error + json) \<Rightarrow> transport \<Rightarrow> json \<Rightarrow> world \<Rightarrow> (error + json) \<times> world" where
  "addConnection format t connection w =
     (case toApiConnection format connection of
        Inl e \<Rightarrow> (Inl e, w)
      | Inr conn \<Rightarrow>
          (case send t POST ''/network/connections'' conn w of
             (Inl e, w1) \<Rightarrow> (Inl e, w1)
           | (Inr response, w1) \<Rightarrow>
               if \<not> ok response then
                 (Inr JNull, console_error ''Failed to post list of connections'' response w1)
               else (response_json response, w1)))"

text \<open>
  \<^verbatim>\<open>
  async connectTo(connection) {
    const conn = await this.addConnection(connection);
    await this.apply();
    return conn;
  }
  \<close>
\<close>

definition connectTo ::
  "(json \<Rightarrow> error + json) \<Rightarrow> transport \<Rightarrow> json \<Rightarrow> world \<Rightarrow> (error + json) \<times> world" where
  "connectTo format t connection w =
     (case addConnection format t connection w of
        (Inl e, w1) \<Rightarrow> (Inl e, w1)
      | (Inr conn, w1) \<Rightarrow>
          (case apply_changes t w1 of
             (Inl e, w2) \<Rightarrow> (Inl e, w2)
           | (Inr r, w2) \<Rightarrow> (Inr conn, w2)))"

text \<open>\<^verbatim>\<open>if (options.k) wireless.k = options.k;\<close>\<close>

definition copy_option :: "json \<Rightarrow> string \<Rightarrow> (string \<times> json) list \<Rightarrow> (string \<times> json) list" where
  "copy_option options k wireless =
     (if truthy (lookup options k) then AList.update k (lookup options k) wireless else wireless)"

text \<open>
  \<^verbatim>\<open>
  async addAndConnectTo(ssid, options) {
    const wireless = { ssid, mode: "infrastructure" };
    if (options.security) wireless.security = options.security;
    if (options.password) wireless.password = options.password;
    if (options.hidden) wireless.hidden = options.hidden;
    if (options.mode) wireless.mode = options.mode;
    const connection = createConnection({
      id: ssid,
      wireless,
    });
    return this.connectTo(connection);
  }
  \<close>
  \<^verbatim>\<open>createConnection\<close> (of \<^verbatim>\<open>./model\<close>) is a parameter.
\<close>

definition addAndConnectTo ::
  "(json \<Rightarrow> error + json) \<Rightarrow> (json \<Rightarrow> error + json) \<Rightarrow> transport \<Rightarrow> json \<Rightarrow> json \<Rightarrow> world
     \<Rightarrow> (error + json) \<times> world" where
  "addAndConnectTo createConnection format t ssid options w =
     (if nullish options then (Inl TypeError, w)
      else
        let wireless = copy_option options ''mode'' (copy_option options ''hidden''
                         (copy_option options ''password'' (copy_option options ''security''
                            [(''ssid'', ssid), (''mode'', JStr ''infrastructure'')])))
        in case createConnection (JObj [(''id'', ssid), (''wireless'', JObj wireless)]) of
             Inl e \<Rightarrow> (Inl e, w)
           | Inr connection \<Rightarrow> connectTo format t connection w)"

text \<open>
  \<^verbatim>\<open>
  async updateConnection(connection) {
    const conn = this.toApiConnection(connection);
    await this.client.put(`/network/connections/${conn.id}`, conn);
    return (await this.apply()).ok;
  }
  \<close>
\<close>

definition updateConnection ::
  "(json \<Rightarrow> error + json) \<Rightarrow> transport \<Rightarrow> json \<Rightarrow> world \<Rightarrow> (error + bool) \<times> world" where
  "updateConnection format t connection w =
     (case toApiConnection format connection of
        Inl e \<Rightarrow> (Inl e, w)
      | Inr conn \<Rightarrow>
          (case send t PUT (''/network/connections/'' @ to_string (lookup conn ''id'')) conn w of
             (Inl e, w1) \<Rightarrow> (Inl e, w1)
           | (Inr r, w1) \<Rightarrow>
               (case apply_changes t w1 of
                  (Inl e, w2) \<Rightarrow> (Inl e, w2)
                | (Inr a, w2) \<Rightarrow> (Inr (ok a), w2))))"

text \<open>
  \<^verbatim>\<open>
  async deleteConnection(id) {
    await this.client.delete(`/network/connections/${id}`);
    return (await this.apply()).ok;
  }
  \<close>
\<close>

definition deleteConnection :: "transport \<Rightarrow> json \<Rightarrow> world \<Rightarrow> (error + bool) \<times> world" where
  "deleteConnection t ident w =
     (case send t DELETE (''/network/connections/'' @ to_string ident) JUndefined w of
        (Inl e, w1) \<Rightarrow> (Inl e, w1)
      | (Inr r, w1) \<Rightarrow>
          (case apply_changes t w1 of
             (Inl e, w2) \<Rightarrow> (Inl e, w2)
           | (Inr a, w2) \<Rightarrow> (Inr (ok a), w2)))"

section \<open>Notions used in the statements\<close>

text \<open>One step after another, the first throw ending the sequence.\<close>

definition bind_result :: "error + 'a \<Rightarrow> ('a \<Rightarrow> error + 'b) \<Rightarrow> error + 'b" where
  "bind_result r f = (case r of Inl e \<Rightarrow> Inl e | Inr x \<Rightarrow> f x)"

text \<open>\<^verbatim>\<open>(await r).k\<close>: a property of a result.\<close>

definition field_of :: "error + json \<Rightarrow> string \<Rightarrow> error + json" where
  "field_of r k = bind_result r (\<lambda>v. get_prop v k)"

text \<open>The dotted notation of four octets, and of the netmask with \<open>n\<close> leading one bits.\<close>

definition quad :: "nat \<Rightarrow> nat \<Rightarrow> nat \<Rightarrow> nat \<Rightarrow> string" where
  "quad a b c d = dec a @ CHR ''.'' # dec b @ CHR ''.'' # dec c @ CHR ''.'' # dec d"

definition netmask_of :: "nat \<Rightarrow> string" where
  "netmask_of n =
     (let v = prefix_mask n
      in quad (v div 2 ^ 24) (v div 2 ^ 16 mod 256) (v div 2 ^ 8 mod 256) (v mod 256))"

text \<open>The fields of a record other than \<open>k\<close>, in order, with their values.\<close>

definition other_fields :: "string \<Rightarrow> json \<Rightarrow> (string \<times> json) list" where
  "other_fields k v = filter (\<lambda>kv. fst kv \<noteq> k) (own_props v)"

text \<open>A structured IPAddress: an object with a string address and at most a prefix besides.\<close>

fun structured_address :: "json \<Rightarrow> bool" where
  "structured_address (JObj kvs) =
     ((map fst kvs = [''address''] \<or> map fst kvs = [''address'', ''prefix''])
      \<and> (case map_of kvs ''address'' of Some (JStr ip) \<Rightarrow> True | _ \<Rightarrow> False))"
| "structured_address v = False"

text \<open>The names of the fields of a record, in order.\<close>

definition field_names :: "json \<Rightarrow> string list" where
  "field_names v = map fst (own_props v)"

text \<open>The wire connection of the end-to-end example (specification, section 8).\<close>

definition wire_eth0 :: json where
  "wire_eth0 = JObj [(''id'', JStr ''eth0''),
                     (''addresses'', JArr [JStr ''192.168.1.10/24'']),
                     (''nameservers'', JArr [JStr ''8.8.8.8'']),
                     (''iface'', JStr ''eth0'')]"

text \<open>
  A wire device with one route of each family; the IPv4 route carries a next hop, a
  metric and a field this client knows nothing about.
\<close>

definition wire_routes4 :: "json list" where
  "wire_routes4 = [JObj [(''destination'', JStr ''10.0.0.0/8''), (''nextHop'', JStr ''10.0.0.1''),
                         (''metric'', JNum 100), (''vendorTag'', JBool True)]]"

definition wire_routes6 :: "json list" where
  "wire_routes6 = [JObj [(''destination'', JStr ''fe80::''), (''metric'', JNum 1)]]"

definition wire_device :: json where
  "wire_device = JObj [(''name'', JStr ''eth0''),
     (''ipConfig'', JObj [(''routes4'', JArr wire_routes4), (''routes6'', JArr wire_routes6)])]"

definition domain_device :: json where
  "domain_device = JObj [(''name'', JStr ''eth0''),
     (''routes4'', JArr [JObj [(''destination'', JObj [(''address'', JStr ''10.0.0.0''), (''prefix'', JNum 8)]),
                               (''nextHop'', JStr ''10.0.0.1''), (''metric'', JNum 100),
                               (''vendorTag'', JBool True)]]),
     (''routes6'', JArr [JObj [(''destination'', JObj [(''address'', JStr ''fe80::'')]),
                               (''metric'', JNum 1)]]),
     (''addresses'', JArr []), (''nameservers'', JArr [])]"





text \<open>The same connection in the domain, and a transport that answers with the wire one.\<close>

definition domain_eth0 :: json where
  "domain_eth0 = JObj [(''id'', JStr ''eth0''),
                       (''addresses'', JArr [JObj [(''address'', JStr ''192.168.1.10''),
                                                   (''prefix'', JNum 24)]]),
                       (''nameservers'', JArr [JStr ''8.8.8.8'']),
                       (''iface'', JStr ''eth0'')]"

definition wire_eth0_transport :: transport where
  "wire_eth0_transport h rq = Inr \<lparr>ok = True, body = Some (JArr [wire_eth0])\<rparr>"

text \<open>The commit request that \<^verbatim>\<open>apply()\<close> sends.\<close>

definition apply_request :: request where
  "apply_request = \<lparr>verb = PUT, path = ''/network/system/apply'', payload = JObj []\<rparr>"

text \<open>The write requests of the mutating operations.\<close>

definition post_connection :: "json \<Rightarrow> request" where
  "post_connection conn = \<lparr>verb = POST, path = ''/network/connections'', payload = conn\<rparr>"

definition put_connection :: "json \<Rightarrow> request" where
  "put_connection conn =
     \<lparr>verb = PUT, path = ''/network/connections/'' @ to_string (lookup conn ''id''), payload = conn\<rparr>"

definition delete_connection :: "json \<Rightarrow> request" where
  "delete_connection ident =
     \<lparr>verb = DELETE, path = ''/network/connections/'' @ to_string ident, payload = JUndefined\<rparr>"

definition get_request :: "string \<Rightarrow> request" where
  "get_request p = \<lparr>verb = GET, path = p, payload = JUndefined\<rparr>"

text \<open>What \<open>toApiConnection\<close> makes of the example connection.\<close>

definition wire_out_eth0 :: json where
  "wire_out_eth0 = JObj [(''id'', JStr ''eth0''),
                         (''addresses'', JArr [JStr ''192.168.1.10/24'']),
                         (''nameservers'', JArr [JStr ''8.8.8.8'']),
                         (''gateway4'', JUndefined),
                         (''gateway6'', JUndefined),
                         (''interface'', JStr ''eth0'')]"

text \<open>
  Transports for the examples: one that accepts every request, one that answers every
  request with a failure, one that refuses the DELETE only, one that refuses the commit
  only.
\<close>

definition accepting_transport :: transport where
  "accepting_transport h rq = Inr \<lparr>ok = True, body = Some JNull\<rparr>"

definition failing_transport :: transport where
  "failing_transport h rq = Inr \<lparr>ok = False, body = None\<rparr>"

definition delete_refused_transport :: transport where
  "delete_refused_transport h rq = Inr \<lparr>ok = (verb rq \<noteq> DELETE), body = None\<rparr>"

definition apply_refused_transport :: transport where
  "apply_refused_transport h rq = Inr \<lparr>ok = (rq \<noteq> apply_request), body = None\<rparr>"

definition empty_world :: world where
  "empty_world = \<lparr>sent = [], console = []\<rparr>"

section \<open>Decimal numerals and splitting\<close>

declare dec.simps [simp del]

lemma split_nonempty: "split c s \<noteq> []"
  by (induction s) (auto split: list.splits)

lemma split_no_sep: "c \<notin> set s \<Longrightarrow> split c s = [s]"
  by (induction s) auto

lemma split_append_sep: "c \<notin> set a \<Longrightarrow> split c (a @ c # b) = a # split c b"
  by (induction a) auto

lemma digit_value_digit_char: "d < 10 \<Longrightarrow> digit_value (digit_char d) = Some d"
proof -
  assume "d < 10"
  then have "d \<in> set [0..<10]" by simp
  then show ?thesis
    by (simp add: upt_rec digit_char_def digit_value_def, elim disjE) simp_all
qed

lemma digit_char_in_digits: "d < 10 \<Longrightarrow> digit_char d \<in> set ''0123456789''"
  unfolding digit_char_def by (rule nth_mem) simp

lemma dec_digits: "set (dec n) \<subseteq> set ''0123456789''"
proof (induction n rule: dec.induct)
  case (1 n)
  show ?case
  proof (cases "n < 10")
    case True
    then show ?thesis using digit_char_in_digits [of n] by (subst dec.simps) simp
  next
    case False
    have "n mod 10 < 10" by simp
    then have "digit_char (n mod 10) \<in> set ''0123456789''" by (rule digit_char_in_digits)
    with False 1 show ?thesis by (subst dec.simps) simp
  qed
qed

lemma dec_no_slash: "CHR ''/'' \<notin> set (dec n)"
  using dec_digits [of n] by auto

lemma dec_no_dot: "CHR ''.'' \<notin> set (dec n)"
  using dec_digits [of n] by auto

lemma dec_nonempty: "dec n \<noteq> []"
  by (subst dec.simps) simp

lemma digits_value_snoc:
  "digits_value acc (cs @ [c]) =
     (case digits_value acc cs of None \<Rightarrow> None
      | Some v \<Rightarrow> (case digit_value c of None \<Rightarrow> None | Some d \<Rightarrow> Some (10 * v + d)))"
  by (induction cs arbitrary: acc) (auto split: option.splits)

lemma digits_value_dec: "digits_value 0 (dec n) = Some n"
proof (induction n rule: dec.induct)
  case (1 n)
  show ?case
  proof (cases "n < 10")
    case True
    then show ?thesis by (subst dec.simps) (simp add: digit_value_digit_char)
  next
    case False
    have "digit_value (digit_char (n mod 10)) = Some (n mod 10)"
      by (rule digit_value_digit_char) simp
    with False 1 show ?thesis
      by (subst dec.simps) (simp add: digits_value_snoc)
  qed
qed

lemma parse_nat_dec: "parse_nat (dec n) = Some n"
  by (simp add: parse_nat_def dec_nonempty digits_value_dec)

lemma hd_dec: "0 < n \<Longrightarrow> hd (dec n) \<noteq> CHR ''0''"
proof (induction n rule: dec.induct)
  case (1 n)
  show ?case
  proof (cases "n < 10")
    case True
    with 1(2) have "n \<in> set [1..<10]" by simp
    then show ?thesis
      by (subst dec.simps, simp add: upt_rec digit_char_def, elim disjE) simp_all
  next
    case False
    then have "0 < n div 10" by simp
    with False 1 show ?thesis
      by (subst dec.simps) (simp add: dec_nonempty)
  qed
qed

lemma length_dec: "1 < length (dec n) \<Longrightarrow> 0 < n"
  by (cases "n = 0") (simp_all add: dec.simps)

lemma int_literal_dec: "int_literal (dec n) = Some n"
  using hd_dec [of n] length_dec [of n] by (auto simp: int_literal_def parse_nat_dec)

section \<open>The codec\<close>

lemma leading_ones_le: "leading_ones k v \<le> k"
  by (induction k) auto

lemma octet_dec: "n \<le> 255 \<Longrightarrow> octet (dec n) = Some n"
  by (simp add: parse_nat_dec)

lemma split_quad: "split CHR ''.'' (quad a b c d) = [dec a, dec b, dec c, dec d]"
  by (simp add: quad_def split_append_sep split_no_sep dec_no_dot)

lemma dotted_quad:
  "a \<le> 255 \<Longrightarrow> b \<le> 255 \<Longrightarrow> c \<le> 255 \<Longrightarrow> d \<le> 255 \<Longrightarrow> dotted (quad a b c d) = Some (mask_value a b c d)"
  by (simp add: split_quad parse_nat_dec del: split.simps)

lemma digits_value_not_digit: "c \<in> set s \<Longrightarrow> digit_value c = None \<Longrightarrow> digits_value acc s = None"
  by (induction s arbitrary: acc) (auto split: option.splits)

lemma int_literal_quad: "int_literal (quad a b c d) = None"
proof -
  have "CHR ''.'' \<in> set (quad a b c d)" by (simp add: quad_def)
  moreover have "digit_value CHR ''.'' = None" by (simp add: digit_value_def)
  ultimately have "digits_value 0 (quad a b c d) = None" by (rule digits_value_not_digit)
  then show ?thesis by (simp add: int_literal_def parse_nat_def)
qed

lemma ipPrefixFor_quad:
  assumes "a \<le> 255" "b \<le> 255" "c \<le> 255" "d \<le> 255"
  shows "ipPrefixFor (JStr (quad a b c d)) =
     (if contiguous (mask_value a b c d) then Inr (JNum (int (leading_ones 32 (mask_value a b c d))))
      else Inl ValidationError)"
  using assms by (simp add: ipPrefixFor_def int_literal_quad dotted_quad del: dotted.simps)

lemma ipPrefixFor_dec: "n \<le> 128 \<Longrightarrow> ipPrefixFor (JStr (dec n)) = Inr (JNum (int n))"
  by (simp add: ipPrefixFor_def int_literal_dec)

lemma fromApiAddress_slash:
  "CHR ''/'' \<notin> set a \<Longrightarrow> CHR ''/'' \<notin> set m \<Longrightarrow>
   fromApiAddress p (JStr (a @ CHR ''/'' # m)) =
     (case p (JStr m) of Inl e \<Rightarrow> Inl e | Inr n \<Rightarrow> Inr (JObj [(''address'', JStr a), (''prefix'', n)]))"
  by (simp add: fromApiAddress_def split_append_sep split_no_sep)

lemma fromApiAddress_plain:
  "CHR ''/'' \<notin> set a \<Longrightarrow> fromApiAddress p (JStr a) = Inr (JObj [(''address'', JStr a)])"
  by (simp add: fromApiAddress_def split_no_sep)

lemma quad_no_slash: "CHR ''/'' \<notin> set (quad a b c d)"
  by (simp add: quad_def dec_no_slash)

lemma leading_ones_numeral:
  "leading_ones (numeral k) v =
     (if odd (v div 2 ^ pred_numeral k) then Suc (leading_ones (pred_numeral k) v) else 0)"
  by (simp add: numeral_eq_Suc)

lemma leading_ones_one: "leading_ones (Suc 0) v = (if odd v then Suc 0 else 0)"
  by simp

lemma upto_32: "n \<le> 32 \<Longrightarrow> n \<in> set [0..<33]"
  by simp

lemma leading_ones_prefix_mask: "n \<le> 32 \<Longrightarrow> leading_ones 32 (prefix_mask n) = n"
  by (drule upto_32, simp add: upt_rec, elim disjE)
     (simp_all add: prefix_mask_def leading_ones_numeral leading_ones_one del: leading_ones.simps)

lemma contiguous_prefix_mask: "n \<le> 32 \<Longrightarrow> contiguous (prefix_mask n)"
  by (simp add: contiguous_def leading_ones_prefix_mask)

lemma contiguous_iff: "contiguous v \<longleftrightarrow> (\<exists>n\<le>32. v = prefix_mask n)"
proof
  assume "contiguous v"
  then have "v = prefix_mask (leading_ones 32 v)" by (simp add: contiguous_def)
  moreover have "leading_ones 32 v \<le> 32" by (rule leading_ones_le)
  ultimately show "\<exists>n\<le>32. v = prefix_mask n" by blast
next
  assume "\<exists>n\<le>32. v = prefix_mask n"
  then show "contiguous v" by (auto simp: contiguous_prefix_mask)
qed

lemma prefix_mask_octets:
  "n \<le> 32 \<Longrightarrow>
     mask_value (prefix_mask n div 2 ^ 24) (prefix_mask n div 2 ^ 16 mod 256)
       (prefix_mask n div 2 ^ 8 mod 256) (prefix_mask n mod 256) = prefix_mask n"
  by (drule upto_32, simp add: upt_rec, elim disjE) (simp_all add: prefix_mask_def mask_value_def)

lemma prefix_mask_top: "prefix_mask n div 2 ^ 24 \<le> 255"
proof -
  have "prefix_mask n < 2 ^ 32" by (simp add: prefix_mask_def)
  then have "prefix_mask n div 2 ^ 24 < 256" by (simp add: less_mult_imp_div_less)
  then show ?thesis by simp
qed

lemma ipPrefixFor_netmask_of: "n \<le> 32 \<Longrightarrow> ipPrefixFor (JStr (netmask_of n)) = Inr (JNum (int n))"
proof -
  assume n: "n \<le> 32"
  let ?v = "prefix_mask n"
  have "ipPrefixFor (JStr (quad (?v div 2 ^ 24) (?v div 2 ^ 16 mod 256) (?v div 2 ^ 8 mod 256) (?v mod 256)))
        = (if contiguous (mask_value (?v div 2 ^ 24) (?v div 2 ^ 16 mod 256) (?v div 2 ^ 8 mod 256) (?v mod 256))
           then Inr (JNum (int (leading_ones 32
                  (mask_value (?v div 2 ^ 24) (?v div 2 ^ 16 mod 256) (?v div 2 ^ 8 mod 256) (?v mod 256)))))
           else Inl ValidationError)"
    by (rule ipPrefixFor_quad) (use prefix_mask_top [of n] in simp_all)
  also have "\<dots> = Inr (JNum (int n))"
    by (simp only: prefix_mask_octets [OF n] contiguous_prefix_mask [OF n]
          leading_ones_prefix_mask [OF n] if_True)
  finally show ?thesis by (simp only: netmask_of_def Let_def)
qed

lemma netmask_of_no_slash: "CHR ''/'' \<notin> set (netmask_of n)"
  by (simp add: netmask_of_def Let_def quad_no_slash)

section \<open>Arrays, records and routes\<close>

lemma map_result_Inr:
  "map_result f xs = Inr ys \<Longrightarrow> length ys = length xs \<and> (\<forall>i<length xs. f (xs ! i) = Inr (ys ! i))"
proof (induction xs arbitrary: ys)
  case Nil
  then show ?case by simp
next
  case (Cons x xs)
  from Cons.prems obtain y ys' where y: "f x = Inr y" and ys': "map_result f xs = Inr ys'"
    and ys: "ys = y # ys'"
    by (auto split: sum.splits)
  from Cons.IH [OF ys'] y ys show ?case
    by (auto simp: nth_Cons split: nat.splits)
qed

lemma js_map_Inr:
  "js_map f v = Inr r \<Longrightarrow> \<exists>xs ys. v = JArr xs \<and> r = JArr ys \<and> map_result f xs = Inr ys"
  by (cases v) (auto split: sum.splits)

lemma filter_update_other:
  "filter (\<lambda>kv. fst kv \<noteq> k) (AList.update k v al) = filter (\<lambda>kv. fst kv \<noteq> k) al"
  by (induction al) auto

lemma lookup_JStr_obj: "lookup r k = JStr s \<Longrightarrow> \<exists>kvs. r = JObj kvs \<and> map_of kvs k = Some (JStr s)"
  by (cases r) (auto split: option.splits)


lemma lookup_update_other: "k' \<noteq> k \<Longrightarrow> lookup (JObj (AList.update k v al)) k' = lookup (JObj al) k'"
  by (simp add: update_conv')

lemma route4_Inr:
  assumes "route4 p r = Inr y"
  shows "\<exists>s n. lookup r ''destination'' = JStr s \<and> p (second (split CHR ''/'' s)) = Inr n
           \<and> y = JObj (AList.update ''destination''
                   (JObj [(''address'', JStr (hd (split CHR ''/'' s))), (''prefix'', n)]) (own_props r))"
  using assms
  by (auto simp: route4_def get_prop_def Let_def split: if_splits sum.splits json.splits)

lemma route6_Inr:
  assumes "route6 p r = Inr y"
  shows "\<exists>s. lookup r ''destination'' = JStr s \<and>
          (if second (split CHR ''/'' s) \<noteq> JUndefined
           then \<exists>n. p (second (split CHR ''/'' s)) = Inr n
                  \<and> y = JObj (AList.update ''destination''
                        (JObj [(''address'', JStr (hd (split CHR ''/'' s))), (''prefix'', n)]) (own_props r))
           else y = JObj (AList.update ''destination''
                        (JObj [(''address'', JStr (hd (split CHR ''/'' s)))]) (own_props r)))"
  using assms
  by (auto simp: route6_def get_prop_def Let_def split: if_splits sum.splits json.splits)

lemma replaced_destination:
  assumes "lookup r ''destination'' = JStr s"
    and "y = JObj (AList.update ''destination'' dest (own_props r))"
  shows "other_fields ''destination'' y = other_fields ''destination'' r
       \<and> field_names y = field_names r \<and> lookup y ''destination'' = dest"
proof -
  from assms(1) obtain kvs where r: "r = JObj kvs" and k: "map_of kvs ''destination'' = Some (JStr s)"
    by (auto dest: lookup_JStr_obj)
  from k have "''destination'' \<in> fst ` set kvs" by (rule map_of_SomeD [THEN image_eqI [rotated]]) simp
  then have "map fst (AList.update ''destination'' dest kvs) = map fst kvs"
    by (simp add: update_keys)
  with r assms(2) show ?thesis
    by (simp add: other_fields_def field_names_def filter_update_other update_conv')
qed

lemma fromApiDevice_routes:
  assumes "fromApiDevice p device = Inr d"
    and "js_or (lookup (lookup device ''ipConfig'') ''routes4'') (JArr []) = JArr rs4"
    and "js_or (lookup (lookup device ''ipConfig'') ''routes6'') (JArr []) = JArr rs6"
  shows "\<exists>ys4 ys6. lookup d ''routes4'' = JArr ys4 \<and> lookup d ''routes6'' = JArr ys6
           \<and> map_result (route4 p) rs4 = Inr ys4 \<and> map_result (route6 p) rs6 = Inr ys6"
proof (cases "lookup device ''ipConfig'' = JUndefined")
  case True
  with assms show ?thesis
    by (auto simp: fromApiDevice_def Let_def get_prop_def js_or_def update_conv'
        split: if_splits sum.splits)
next
  case False
  with assms show ?thesis
    by (auto simp: fromApiDevice_def Let_def get_prop_def update_conv'
        split: if_splits sum.splits dest!: js_map_Inr)
qed





section \<open>The address codec: round trip and rejection\<close>

text \<open>
  Claim C7. With \<^verbatim>\<open>format\<close> the function \<open>formatIp\<close> and \<^verbatim>\<open>parse\<close> the function that
  \<open>fromApiConnection\<close> maps over the addresses (\<open>fromApiAddress\<close> with \<open>ipPrefixFor\<close>):
  for every address \<open>a\<close> without a slash and every integer prefix \<open>p\<close> from 0 to 128,
  formatting \<open>{address: a, prefix: p}\<close> gives the string \<open>a/p\<close>, parsing that string gives
  the same structured address back, so that format after parse after format equals
  format, and format after parse reproduces the string \<open>a/p\<close> exactly; an address without
  a prefix is reproduced as well; and \<open>a/m\<close>, with \<open>m\<close> the dotted netmask of \<open>n\<close> leading
  one bits (\<open>n\<close> at most 32), comes back as \<open>a/n\<close>.
\<close>

theorem address_round_trip:
  assumes "CHR ''/'' \<notin> set a" and "0 \<le> p" and "p \<le> 128"
  shows "formatIp (JObj [(''address'', JStr a), (''prefix'', JNum p)])
           = Inr (JStr (a @ CHR ''/'' # dec (nat p)))
       \<and> fromApiAddress ipPrefixFor (JStr (a @ CHR ''/'' # dec (nat p)))
           = Inr (JObj [(''address'', JStr a), (''prefix'', JNum p)])
       \<and> bind_result (bind_result (formatIp (JObj [(''address'', JStr a), (''prefix'', JNum p)]))
            (fromApiAddress ipPrefixFor)) formatIp
           = formatIp (JObj [(''address'', JStr a), (''prefix'', JNum p)])
       \<and> bind_result (fromApiAddress ipPrefixFor (JStr (a @ CHR ''/'' # dec (nat p)))) formatIp
           = Inr (JStr (a @ CHR ''/'' # dec (nat p)))
       \<and> bind_result (fromApiAddress ipPrefixFor (JStr a)) formatIp = Inr (JStr a)
       \<and> (n \<le> 32 \<longrightarrow>
            bind_result (fromApiAddress ipPrefixFor (JStr (a @ CHR ''/'' # netmask_of n))) formatIp
              = Inr (JStr (a @ CHR ''/'' # dec n)))"
proof -
  let ?x = "JObj [(''address'', JStr a), (''prefix'', JNum p)]"
  let ?s = "JStr (a @ CHR ''/'' # dec (nat p))"
  have f: "formatIp ?x = Inr ?s"
    using assms(2) by (simp add: formatIp_def num_to_string_def)
  have "nat p \<le> 128" using assms(3) by simp
  then have "ipPrefixFor (JStr (dec (nat p))) = Inr (JNum (int (nat p)))" by (rule ipPrefixFor_dec)
  then have g: "fromApiAddress ipPrefixFor ?s = Inr ?x"
    using assms(1,2) by (simp add: fromApiAddress_slash dec_no_slash)
  have h: "bind_result (fromApiAddress ipPrefixFor (JStr a)) formatIp = Inr (JStr a)"
    using assms(1) by (simp add: fromApiAddress_plain bind_result_def formatIp_def)
  have m: "bind_result (fromApiAddress ipPrefixFor (JStr (a @ CHR ''/'' # netmask_of n))) formatIp
             = Inr (JStr (a @ CHR ''/'' # dec n))" if "n \<le> 32"
    using assms(1) that
    by (simp add: fromApiAddress_slash netmask_of_no_slash ipPrefixFor_netmask_of bind_result_def
          formatIp_def num_to_string_def)
  from f g h m show ?thesis by (simp add: bind_result_def)
qed

theorem address_round_trip_witness:
  "formatIp (JObj [(''address'', JStr ''192.168.1.10''), (''prefix'', JNum 24)]) = Inr (JStr ''192.168.1.10/24'')
   \<and> fromApiAddress ipPrefixFor (JStr ''192.168.1.10/24'')
        = Inr (JObj [(''address'', JStr ''192.168.1.10''), (''prefix'', JNum 24)])
   \<and> bind_result (fromApiAddress ipPrefixFor (JStr ''192.168.1.10/255.255.255.0'')) formatIp
        = Inr (JStr ''192.168.1.10/24'')"
proof -
  have d: "dec 24 = ''24''" by (simp add: dec.simps digit_char_def)
  have n: "netmask_of 24 = ''255.255.255.0''"
    by (simp add: netmask_of_def prefix_mask_def quad_def dec.simps digit_char_def)
  have a: "CHR ''/'' \<notin> set ''192.168.1.10''" by simp
  have b: "(0::int) \<le> 24" "(24::int) \<le> 128" "(24::nat) \<le> 32" by simp_all
  show ?thesis
    using address_round_trip [OF a b(1,2), of 24] b(3) d n by simp
qed

text \<open>
  Claim C8. Parsing an address whose netmask part is a dotted mask that is not
  contiguous fails with a validation error, whatever the address and the four octets
  are: no prefix is returned, neither a truncated one nor a guess. The example of the
  specification, \<^verbatim>\<open>10.0.0.0/255.0.255.0\<close>, is the instance that follows the theorem.
\<close>

theorem non_contiguous_netmask_rejected:
  assumes "CHR ''/'' \<notin> set addr"
    and "a \<le> 255" and "b \<le> 255" and "c \<le> 255" and "d \<le> 255"
    and "\<not> contiguous (mask_value a b c d)"
  shows "ipPrefixFor (JStr (quad a b c d)) = Inl ValidationError
       \<and> fromApiAddress ipPrefixFor (JStr (addr @ CHR ''/'' # quad a b c d)) = Inl ValidationError"
  using assms by (simp add: fromApiAddress_slash quad_no_slash ipPrefixFor_quad)

theorem non_contiguous_netmask_rejected_witness:
  "ipPrefixFor (JStr ''255.0.255.0'') = Inl ValidationError
   \<and> fromApiAddress ipPrefixFor (JStr ''10.0.0.0/255.0.255.0'') = Inl ValidationError"
proof -
  have q: "quad 255 0 255 0 = ''255.0.255.0''"
    by (simp add: quad_def dec.simps digit_char_def)
  have n: "\<not> contiguous (mask_value 255 0 255 0)"
    by (simp add: contiguous_def mask_value_def prefix_mask_def leading_ones_numeral leading_ones_one
          del: leading_ones.simps)
  have a: "CHR ''/'' \<notin> set ''10.0.0.0''" by simp
  show ?thesis
    using non_contiguous_netmask_rejected [OF a _ _ _ _ n] q by simp
qed

section \<open>The route decomposer\<close>

text \<open>
  Claim C9. Whenever \<open>fromApiDevice\<close> returns, every route of \<^verbatim>\<open>ipConfig.routes4\<close> and of
  \<^verbatim>\<open>ipConfig.routes6\<close> has its image at the same position of \<^verbatim>\<open>routes4\<close> and \<^verbatim>\<open>routes6\<close>
  of the result; the image has the same field names in the same order, all its fields
  other than \<^verbatim>\<open>destination\<close> have the values they had (next hop, metric and whatever else
  the record carries), and its \<^verbatim>\<open>destination\<close> is a structured address. This holds for
  every prefix function.
\<close>

theorem route_fields_preserved:
  assumes "fromApiDevice p device = Inr d"
    and "js_or (lookup (lookup device ''ipConfig'') ''routes4'') (JArr []) = JArr rs4"
    and "js_or (lookup (lookup device ''ipConfig'') ''routes6'') (JArr []) = JArr rs6"
  shows "\<exists>ys4 ys6. lookup d ''routes4'' = JArr ys4 \<and> lookup d ''routes6'' = JArr ys6
           \<and> length ys4 = length rs4 \<and> length ys6 = length rs6
           \<and> (\<forall>i<length rs4.
                 other_fields ''destination'' (ys4 ! i) = other_fields ''destination'' (rs4 ! i)
                 \<and> field_names (ys4 ! i) = field_names (rs4 ! i)
                 \<and> structured_address (lookup (ys4 ! i) ''destination''))
           \<and> (\<forall>i<length rs6.
                 other_fields ''destination'' (ys6 ! i) = other_fields ''destination'' (rs6 ! i)
                 \<and> field_names (ys6 ! i) = field_names (rs6 ! i)
                 \<and> structured_address (lookup (ys6 ! i) ''destination''))"
proof -
  from fromApiDevice_routes [OF assms] obtain ys4 ys6 where
    d4: "lookup d ''routes4'' = JArr ys4" and d6: "lookup d ''routes6'' = JArr ys6"
    and m4: "map_result (route4 p) rs4 = Inr ys4" and m6: "map_result (route6 p) rs6 = Inr ys6"
    by blast
  from map_result_Inr [OF m4] have l4: "length ys4 = length rs4"
    and e4: "\<And>i. i < length rs4 \<Longrightarrow> route4 p (rs4 ! i) = Inr (ys4 ! i)" by simp_all
  from map_result_Inr [OF m6] have l6: "length ys6 = length rs6"
    and e6: "\<And>i. i < length rs6 \<Longrightarrow> route6 p (rs6 ! i) = Inr (ys6 ! i)" by simp_all
  have f4: "other_fields ''destination'' (ys4 ! i) = other_fields ''destination'' (rs4 ! i)
            \<and> field_names (ys4 ! i) = field_names (rs4 ! i)
            \<and> structured_address (lookup (ys4 ! i) ''destination'')" if "i < length rs4" for i
  proof -
    from route4_Inr [OF e4 [OF that]] obtain s n where
      s: "lookup (rs4 ! i) ''destination'' = JStr s"
      and y: "ys4 ! i = JObj (AList.update ''destination''
                (JObj [(''address'', JStr (hd (split CHR ''/'' s))), (''prefix'', n)]) (own_props (rs4 ! i)))"
      by blast
    from replaced_destination [OF s y] show ?thesis by simp
  qed
  have f6: "other_fields ''destination'' (ys6 ! i) = other_fields ''destination'' (rs6 ! i)
            \<and> field_names (ys6 ! i) = field_names (rs6 ! i)
            \<and> structured_address (lookup (ys6 ! i) ''destination'')" if "i < length rs6" for i
  proof -
    from route6_Inr [OF e6 [OF that]] obtain s where
      s: "lookup (rs6 ! i) ''destination'' = JStr s"
      and y: "(\<exists>n. ys6 ! i = JObj (AList.update ''destination''
                (JObj [(''address'', JStr (hd (split CHR ''/'' s))), (''prefix'', n)]) (own_props (rs6 ! i))))
            \<or> ys6 ! i = JObj (AList.update ''destination''
                (JObj [(''address'', JStr (hd (split CHR ''/'' s)))]) (own_props (rs6 ! i)))"
      by (auto split: if_splits)
    from y show ?thesis
    proof
      assume "\<exists>n. ys6 ! i = JObj (AList.update ''destination''
                (JObj [(''address'', JStr (hd (split CHR ''/'' s))), (''prefix'', n)]) (own_props (rs6 ! i)))"
      then obtain n where "ys6 ! i = JObj (AList.update ''destination''
                (JObj [(''address'', JStr (hd (split CHR ''/'' s))), (''prefix'', n)]) (own_props (rs6 ! i)))" ..
      from replaced_destination [OF s this] show ?thesis by simp
    next
      assume "ys6 ! i = JObj (AList.update ''destination''
                (JObj [(''address'', JStr (hd (split CHR ''/'' s)))]) (own_props (rs6 ! i)))"
      from replaced_destination [OF s this] show ?thesis by simp
    qed
  qed
  from d4 d6 l4 l6 f4 f6 show ?thesis by blast
qed


theorem route_fields_preserved_witness:
  "fromApiDevice ipPrefixFor wire_device = Inr domain_device
   \<and> (\<exists>ys4 ys6. lookup domain_device ''routes4'' = JArr ys4 \<and> lookup domain_device ''routes6'' = JArr ys6
           \<and> length ys4 = length wire_routes4 \<and> length ys6 = length wire_routes6
           \<and> (\<forall>i<length wire_routes4.
                 other_fields ''destination'' (ys4 ! i) = other_fields ''destination'' (wire_routes4 ! i)
                 \<and> field_names (ys4 ! i) = field_names (wire_routes4 ! i)
                 \<and> structured_address (lookup (ys4 ! i) ''destination''))
           \<and> (\<forall>i<length wire_routes6.
                 other_fields ''destination'' (ys6 ! i) = other_fields ''destination'' (wire_routes6 ! i)
                 \<and> field_names (ys6 ! i) = field_names (wire_routes6 ! i)
                 \<and> structured_address (lookup (ys6 ! i) ''destination'')))"
proof -
  have d: "fromApiDevice ipPrefixFor wire_device = Inr domain_device"
    by (simp add: wire_device_def wire_routes4_def wire_routes6_def domain_device_def
          fromApiDevice_def opt_prop_def js_or_def get_prop_def route4_def
          route6_def spread_def ipPrefixFor_def int_literal_def parse_nat_def digit_value_def)
  have r4: "js_or (lookup (lookup wire_device ''ipConfig'') ''routes4'') (JArr []) = JArr wire_routes4"
    by (simp add: wire_device_def js_or_def)
  have r6: "js_or (lookup (lookup wire_device ''ipConfig'') ''routes6'') (JArr []) = JArr wire_routes6"
    by (simp add: wire_device_def js_or_def)
  from d route_fields_preserved [OF d r4 r6] show ?thesis by (rule conjI)
qed




section \<open>The end-to-end example and the classifier\<close>

lemma fromApiConnection_wire_eth0: "fromApiConnection ipPrefixFor wire_eth0 = Inr domain_eth0"
  by (simp add: wire_eth0_def domain_eth0_def fromApiConnection_def get_prop_def js_or_def
        fromApiAddress_def ipPrefixFor_def int_literal_def parse_nat_def digit_value_def)

text \<open>
  Claim C3, as stated, fails: the object that \<open>fromApiConnection\<close> returns for the wire
  connection of the example has no \<^verbatim>\<open>type\<close> field. Reading it gives undefined.
\<close>

theorem eth0_has_no_type_field:
  "field_of (fromApiConnection ipPrefixFor wire_eth0) ''type'' = Inr JUndefined"
  by (simp add: fromApiConnection_wire_eth0 field_of_def bind_result_def get_prop_def domain_eth0_def)

text \<open>
  Claim C3, amended. The wire connection of the example is translated, by
  \<open>fromApiConnection\<close> and so by \<open>connections\<close> when the transport answers with it, into
  the object with id "eth0", addresses \<^verbatim>\<open>[{address: "192.168.1.10", prefix: 24}]\<close>,
  nameservers \<^verbatim>\<open>["8.8.8.8"]\<close> and iface "eth0", and with these four fields only; the type
  ETHERNET is what the classifier \<open>connectionType\<close>, a separate method, returns for it.
\<close>

theorem eth0_translation:
  "fromApiConnection ipPrefixFor wire_eth0 = Inr domain_eth0
   \<and> fst (connections ipPrefixFor wire_eth0_transport \<lparr>sent = [], console = []\<rparr>) = Inr (JArr [domain_eth0])
   \<and> field_names domain_eth0 = [''id'', ''addresses'', ''nameservers'', ''iface'']
   \<and> connectionType domain_eth0 = Inr ETHERNET"
  by (simp add: fromApiConnection_wire_eth0 connections_def send_def wire_eth0_transport_def
        response_json_def field_names_def connectionType_def)
     (simp add: domain_eth0_def)

text \<open>
  Claim C4, as stated, fails: the classifier tests the value of a marker, not its
  presence. A record whose \<^verbatim>\<open>wireless\<close> field is present and null, and which has a
  \<^verbatim>\<open>bond\<close> object, is a BOND.
\<close>

theorem falsy_wireless_marker_is_skipped:
  "connectionType (JObj [(''wireless'', JNull), (''bond'', JObj [(''mode'', JStr ''active-backup'')])]) = Inr BOND"
  by (simp add: connectionType_def)

text \<open>
  Claim C4, amended. On every record the classifier returns a type, and the first
  rule that matches decides, in the order wireless, bond, vlan, iface "lo", ethernet,
  where a marker matches when its value is truthy (every object is; undefined, null,
  false, 0 and "" are not): a record with a truthy \<^verbatim>\<open>wireless\<close> field, in particular one
  whose \<^verbatim>\<open>wireless\<close> field is an object, is WIFI whatever else it carries; without it, a
  truthy \<^verbatim>\<open>bond\<close> gives BOND; without both, a truthy \<^verbatim>\<open>vlan\<close> gives VLAN; a record
  without marker fields is LOOPBACK with iface "lo" and ETHERNET with iface "eth0".
\<close>

theorem connectionType_priority:
  "(\<exists>t. connectionType (JObj kvs) = Inr t)
   \<and> (truthy (lookup (JObj kvs) ''wireless'') \<longrightarrow> connectionType (JObj kvs) = Inr WIFI)
   \<and> (map_of kvs ''wireless'' = Some (JObj w) \<longrightarrow> connectionType (JObj kvs) = Inr WIFI)
   \<and> (\<not> truthy (lookup (JObj kvs) ''wireless'') \<and> truthy (lookup (JObj kvs) ''bond'')
        \<longrightarrow> connectionType (JObj kvs) = Inr BOND)
   \<and> (\<not> truthy (lookup (JObj kvs) ''wireless'') \<and> \<not> truthy (lookup (JObj kvs) ''bond'')
        \<and> truthy (lookup (JObj kvs) ''vlan'') \<longrightarrow> connectionType (JObj kvs) = Inr VLAN)
   \<and> (map_of kvs ''wireless'' = None \<and> map_of kvs ''bond'' = None \<and> map_of kvs ''vlan'' = None
        \<and> map_of kvs ''iface'' = Some (JStr ''lo'') \<longrightarrow> connectionType (JObj kvs) = Inr LOOPBACK)
   \<and> (map_of kvs ''wireless'' = None \<and> map_of kvs ''bond'' = None \<and> map_of kvs ''vlan'' = None
        \<and> map_of kvs ''iface'' = Some (JStr ''eth0'') \<longrightarrow> connectionType (JObj kvs) = Inr ETHERNET)
   \<and> (\<not> truthy (lookup (JObj kvs) ''wireless'') \<and> \<not> truthy (lookup (JObj kvs) ''bond'')
        \<and> \<not> truthy (lookup (JObj kvs) ''vlan'') \<longrightarrow>
        connectionType (JObj kvs) = Inr (if lookup (JObj kvs) ''iface'' = JStr ''lo'' then LOOPBACK else ETHERNET))"
  by (simp add: connectionType_def)

theorem connectionType_priority_witness:
  "connectionType (JObj [(''wireless'', JObj [(''ssid'', JStr ''Home'')]), (''bond'', JObj []), (''vlan'', JObj [])]) = Inr WIFI
   \<and> connectionType (JObj [(''bond'', JObj []), (''vlan'', JObj [])]) = Inr BOND
   \<and> connectionType (JObj [(''vlan'', JObj []), (''iface'', JStr ''lo'')]) = Inr VLAN
   \<and> connectionType (JObj [(''id'', JStr ''x''), (''iface'', JStr ''lo'')]) = Inr LOOPBACK
   \<and> connectionType (JObj [(''id'', JStr ''x''), (''iface'', JStr ''eth0'')]) = Inr ETHERNET"
  using connectionType_priority [of "[(''wireless'', JObj [(''ssid'', JStr ''Home'')]), (''bond'', JObj []), (''vlan'', JObj [])]" "[(''ssid'', JStr ''Home'')]"]
    connectionType_priority [of "[(''bond'', JObj []), (''vlan'', JObj [])]"]
    connectionType_priority [of "[(''vlan'', JObj []), (''iface'', JStr ''lo'')]"]
    connectionType_priority [of "[(''id'', JStr ''x''), (''iface'', JStr ''lo'')]"]
    connectionType_priority [of "[(''id'', JStr ''x''), (''iface'', JStr ''eth0'')]"]
  by simp

section \<open>The client and the transport\<close>

lemma toApiConnection_domain_eth0: "toApiConnection formatIp domain_eth0 = Inr wire_out_eth0"
  by (simp add: toApiConnection_def domain_eth0_def wire_out_eth0_def get_prop_def js_or_def
        formatIp_def num_to_string_def dec.simps digit_char_def not_blank_def)

lemma send_eq: "send t m p b w = (t (sent w) \<lparr>verb = m, path = p, payload = b\<rparr>,
   w\<lparr>sent := sent w @ [\<lparr>verb = m, path = p, payload = b\<rparr>]\<rparr>)"
  by (simp add: send_def Let_def)

lemma sent_apply_changes: "sent (snd (apply_changes t w)) = sent w @ [apply_request]"
  by (simp add: apply_changes_def send_eq apply_request_def)

lemma sent_addConnection:
  "sent (snd (addConnection format t connection w)) =
     (case toApiConnection format connection of
        Inl e \<Rightarrow> sent w
      | Inr conn \<Rightarrow> sent w @ [post_connection conn])"
  by (simp add: addConnection_def send_eq post_connection_def console_error_def
        split: sum.splits)

lemma addConnection_returns:
  assumes "toApiConnection format connection = Inr conn"
    and "t (sent w) (post_connection conn) = Inr r"
    and "ok r \<longrightarrow> body r \<noteq> None"
  shows "\<exists>v. fst (addConnection format t connection w) = Inr v"
  using assms
  by (auto simp: addConnection_def send_eq post_connection_def response_json_def)

lemma sent_connectTo:
  "sent (snd (connectTo format t connection w)) =
     (case fst (addConnection format t connection w) of
        Inl e \<Rightarrow> sent (snd (addConnection format t connection w))
      | Inr v \<Rightarrow> sent (snd (addConnection format t connection w)) @ [apply_request])"
proof (cases "addConnection format t connection w")
  case (Pair res w1)
  show ?thesis
  proof (cases res)
    case (Inl e)
    with Pair show ?thesis by (simp add: connectTo_def)
  next
    case (Inr v)
    with Pair sent_apply_changes [of t w1] show ?thesis
      by (cases "apply_changes t w1") (auto simp: connectTo_def split: sum.splits)
  qed
qed

lemma connectTo_returns:
  assumes "fst (connectTo format t connection w) = Inr v"
  shows "\<exists>c u. toApiConnection format connection = Inr c \<and> fst (addConnection format t connection w) = Inr u"
  using assms
  by (cases "toApiConnection format connection")
     (auto simp: connectTo_def addConnection_def split: prod.splits sum.splits)

text \<open>
  Claim C1 says that \<open>deleteConnection\<close> returns true only if the DELETE call succeeded
  as well. The code does not look at the response of the DELETE call: whenever both
  calls resolve, the result is the \<^verbatim>\<open>ok\<close> flag of the response to the commit, whatever the
  response to the DELETE was. The instance after the theorem is a refused DELETE followed
  by an accepted commit: the result is true.
\<close>

theorem deleteConnection_result:
  assumes "t (sent w) (delete_connection ident) = Inr r"
    and "t (sent w @ [delete_connection ident]) apply_request = Inr a"
  shows "fst (deleteConnection t ident w) = Inr (ok a)"
  using assms
  by (simp add: deleteConnection_def apply_changes_def send_eq delete_connection_def apply_request_def)

theorem deleteConnection_result_witness:
  "delete_refused_transport (sent empty_world) (delete_connection (JStr ''eth0''))
      = Inr \<lparr>ok = False, body = None\<rparr>
   \<and> delete_refused_transport (sent empty_world @ [delete_connection (JStr ''eth0'')]) apply_request
      = Inr \<lparr>ok = True, body = None\<rparr>
   \<and> fst (deleteConnection delete_refused_transport (JStr ''eth0'') empty_world) = Inr True"
proof -
  have d: "delete_refused_transport (sent empty_world) (delete_connection (JStr ''eth0''))
      = Inr \<lparr>ok = False, body = None\<rparr>"
    by (simp add: delete_refused_transport_def delete_connection_def)
  have a: "delete_refused_transport (sent empty_world @ [delete_connection (JStr ''eth0'')]) apply_request
      = Inr \<lparr>ok = True, body = None\<rparr>"
    by (simp add: delete_refused_transport_def apply_request_def)
  from d a deleteConnection_result [OF d a] show ?thesis by simp
qed

text \<open>
  Claim C2, as stated, fails: \<open>addConnection\<close> sends the POST and nothing else. With a
  transport that accepts every request, the commit request is not among the requests
  sent.
\<close>

theorem addConnection_sends_no_apply:
  "sent (snd (addConnection formatIp accepting_transport domain_eth0 empty_world))
     = [post_connection wire_out_eth0]
   \<and> apply_request \<notin> set (sent (snd (addConnection formatIp accepting_transport domain_eth0 empty_world)))"
  by (simp add: sent_addConnection toApiConnection_domain_eth0 empty_world_def
        post_connection_def apply_request_def)

text \<open>
  Claim C2, amended. \<open>addConnection\<close> is a bare write: it sends the POST only. The other
  mutating operations send the write request and then the commit request, in this
  order and nothing else: \<open>updateConnection\<close> and \<open>deleteConnection\<close> whenever the write
  call resolves to a response (accepted or not), \<open>connectTo\<close> whenever the POST resolves
  and, if accepted, its body decodes (that is, whenever \<open>addConnection\<close> returns), and
  \<open>addAndConnectTo\<close> whenever it returns.
\<close>

theorem write_then_commit:
  "(toApiConnection format connection = Inr conn \<longrightarrow>
      sent (snd (addConnection format t connection w)) = sent w @ [post_connection conn])
   \<and> (toApiConnection format connection = Inr conn \<and> t (sent w) (post_connection conn) = Inr r
        \<and> (ok r \<longrightarrow> body r \<noteq> None) \<longrightarrow>
      sent (snd (connectTo format t connection w)) = sent w @ [post_connection conn, apply_request])
   \<and> (fst (addAndConnectTo createConnection format t ssid options w) = Inr result \<longrightarrow>
      (\<exists>c. sent (snd (addAndConnectTo createConnection format t ssid options w))
             = sent w @ [post_connection c, apply_request]))
   \<and> (toApiConnection format connection = Inr conn \<and> t (sent w) (put_connection conn) = Inr r \<longrightarrow>
      sent (snd (updateConnection format t connection w)) = sent w @ [put_connection conn, apply_request])
   \<and> (t (sent w) (delete_connection ident) = Inr r \<longrightarrow>
      sent (snd (deleteConnection t ident w)) = sent w @ [delete_connection ident, apply_request])"
proof (intro conjI impI)
  assume "toApiConnection format connection = Inr conn"
  then show "sent (snd (addConnection format t connection w)) = sent w @ [post_connection conn]"
    by (simp add: sent_addConnection)
next
  assume a: "toApiConnection format connection = Inr conn \<and> t (sent w) (post_connection conn) = Inr r
        \<and> (ok r \<longrightarrow> body r \<noteq> None)"
  then obtain v where "fst (addConnection format t connection w) = Inr v"
    using addConnection_returns [of format connection conn t w r] by blast
  with a show "sent (snd (connectTo format t connection w)) = sent w @ [post_connection conn, apply_request]"
    by (simp add: sent_connectTo sent_addConnection)
next
  assume r: "fst (addAndConnectTo createConnection format t ssid options w) = Inr result"
  then obtain connection where
    c: "addAndConnectTo createConnection format t ssid options w = connectTo format t connection w"
    by (auto simp: addAndConnectTo_def Let_def split: if_splits sum.splits)
  with r have "fst (connectTo format t connection w) = Inr result" by simp
  from connectTo_returns [OF this] obtain conn u where
    "toApiConnection format connection = Inr conn" "fst (addConnection format t connection w) = Inr u"
    by blast
  then have "sent (snd (connectTo format t connection w)) = sent w @ [post_connection conn, apply_request]"
    by (simp add: sent_connectTo sent_addConnection)
  with c show "\<exists>c. sent (snd (addAndConnectTo createConnection format t ssid options w))
             = sent w @ [post_connection c, apply_request]"
    by auto
next
  assume "toApiConnection format connection = Inr conn \<and> t (sent w) (put_connection conn) = Inr r"
  then show "sent (snd (updateConnection format t connection w))
               = sent w @ [put_connection conn, apply_request]"
    by (auto simp: updateConnection_def apply_changes_def send_eq put_connection_def apply_request_def
        split: sum.splits)
next
  assume "t (sent w) (delete_connection ident) = Inr r"
  then show "sent (snd (deleteConnection t ident w)) = sent w @ [delete_connection ident, apply_request]"
    by (auto simp: deleteConnection_def apply_changes_def send_eq delete_connection_def apply_request_def
        split: sum.splits)
qed

theorem write_then_commit_witness:
  "sent (snd (addConnection formatIp accepting_transport domain_eth0 empty_world))
     = [post_connection wire_out_eth0]
   \<and> sent (snd (connectTo formatIp accepting_transport domain_eth0 empty_world))
     = [post_connection wire_out_eth0, apply_request]
   \<and> (\<exists>c. sent (snd (addAndConnectTo Inr formatIp accepting_transport (JStr ''Home'')
                        (JObj [(''password'', JStr ''secret'')]) empty_world))
     = [post_connection c, apply_request])
   \<and> sent (snd (updateConnection formatIp accepting_transport domain_eth0 empty_world))
     = [put_connection wire_out_eth0, apply_request]
   \<and> sent (snd (deleteConnection accepting_transport (JStr ''eth0'') empty_world))
     = [delete_connection (JStr ''eth0''), apply_request]"
proof -
  have r: "accepting_transport h rq = Inr \<lparr>ok = True, body = Some JNull\<rparr>" for h rq
    by (simp add: accepting_transport_def)
  have b: "ok \<lparr>ok = True, body = Some JNull\<rparr> \<longrightarrow> body \<lparr>ok = True, body = Some JNull\<rparr> \<noteq> None"
    by simp
  have a: "fst (addAndConnectTo Inr formatIp accepting_transport (JStr ''Home'')
                  (JObj [(''password'', JStr ''secret'')]) empty_world) = Inr JNull"
    by (simp add: addAndConnectTo_def copy_option_def connectTo_def addConnection_def
          toApiConnection_def get_prop_def js_or_def not_blank_def send_eq apply_changes_def
          accepting_transport_def response_json_def)
  have e: "sent empty_world = []" by (simp add: empty_world_def)
  from write_then_commit [where format = formatIp and connection = domain_eth0
      and conn = wire_out_eth0 and t = accepting_transport and w = empty_world
      and r = "\<lparr>ok = True, body = Some JNull\<rparr>" and createConnection = Inr
      and ssid = "JStr ''Home''" and options = "JObj [(''password'', JStr ''secret'')]"
      and result = JNull and ident = "JStr ''eth0''"]
    toApiConnection_domain_eth0 r b a e
  show ?thesis by simp
qed

text \<open>
  Claim C5 says that every collection-returning operation logs a failed read. For a
  response that is not ok, \<open>devices\<close>, \<open>connections\<close> and \<open>accessPoints\<close> return the empty
  list and \<open>settings\<close> returns the empty object, none of them throws; \<open>connections\<close>,
  \<open>accessPoints\<close> and \<open>settings\<close> write the failure with \<^verbatim>\<open>console.error\<close>, and \<open>devices\<close>
  writes nothing.
\<close>

theorem read_soft_fail:
  assumes "\<not> ok r"
    and "\<And>p. t (sent w) (get_request p) = Inr r"
  shows "fst (devices prefixFor t w) = Inr (JArr [])
       \<and> console (snd (devices prefixFor t w)) = console w
       \<and> fst (connections prefixFor t w) = Inr (JArr [])
       \<and> console (snd (connections prefixFor t w))
            = console w @ [(''Failed to get list of connections'', r)]
       \<and> fst (accessPoints createAccessPoint securityFromFlags t w) = Inr (JArr [])
       \<and> console (snd (accessPoints createAccessPoint securityFromFlags t w))
            = console w @ [(''Failed to get list of APs'', r)]
       \<and> fst (settings t w) = Inr (JObj [])
       \<and> console (snd (settings t w)) = console w @ [(''Failed to get settings'', r)]"
  using assms(1) assms(2) [unfolded get_request_def]
  by (simp add: devices_def connections_def accessPoints_def settings_def send_eq console_error_def)

theorem read_soft_fail_witness:
  "fst (devices ipPrefixFor failing_transport empty_world) = Inr (JArr [])
   \<and> console (snd (devices ipPrefixFor failing_transport empty_world)) = []
   \<and> fst (connections ipPrefixFor failing_transport empty_world) = Inr (JArr [])
   \<and> console (snd (connections ipPrefixFor failing_transport empty_world))
        = [(''Failed to get list of connections'', \<lparr>ok = False, body = None\<rparr>)]
   \<and> fst (accessPoints Inr (\<lambda>flags wpa rsn. Inr JNull) failing_transport empty_world)
        = Inr (JArr [])
   \<and> console (snd (accessPoints Inr (\<lambda>flags wpa rsn. Inr JNull) failing_transport empty_world))
        = [(''Failed to get list of APs'', \<lparr>ok = False, body = None\<rparr>)]
   \<and> fst (settings failing_transport empty_world) = Inr (JObj [])
   \<and> console (snd (settings failing_transport empty_world))
        = [(''Failed to get settings'', \<lparr>ok = False, body = None\<rparr>)]"
proof -
  have r: "\<not> ok \<lparr>ok = False, body = None\<rparr>" by simp
  have t: "\<And>p. failing_transport (sent empty_world) (get_request p) = Inr \<lparr>ok = False, body = None\<rparr>"
    by (simp add: failing_transport_def)
  from read_soft_fail [where r = "\<lparr>ok = False, body = None\<rparr>" and t = failing_transport
      and w = empty_world and prefixFor = ipPrefixFor and createAccessPoint = Inr
      and securityFromFlags = "\<lambda>flags wpa rsn. Inr JNull", OF r t]
  show ?thesis
    by (simp add: empty_world_def)
qed

text \<open>
  Claim C6. Whenever the PUT call and the commit both resolve, \<open>updateConnection\<close>
  returns the \<^verbatim>\<open>ok\<close> flag of the response to the commit: it returns true iff the commit
  succeeded, so an accepted PUT followed by a refused commit gives false; and the result
  carries nothing of the PUT phase, two transports whose commits agree give the same
  result whatever they answered to the PUT.
\<close>

theorem updateConnection_apply_coupling:
  assumes "toApiConnection format connection = Inr conn"
    and "t (sent w) (put_connection conn) = Inr r"
    and "t (sent w @ [put_connection conn]) apply_request = Inr a"
  shows "fst (updateConnection format t connection w) = Inr (ok a)
       \<and> (ok r \<and> \<not> ok a \<longrightarrow> fst (updateConnection format t connection w) = Inr False)
       \<and> (t' (sent w) (put_connection conn) = Inr r'
            \<and> t' (sent w @ [put_connection conn]) apply_request = Inr a' \<and> ok a' = ok a
          \<longrightarrow> fst (updateConnection format t' connection w) = fst (updateConnection format t connection w))"
  using assms
  by (simp add: updateConnection_def apply_changes_def send_eq put_connection_def apply_request_def)

theorem updateConnection_apply_coupling_witness:
  "toApiConnection formatIp domain_eth0 = Inr wire_out_eth0
   \<and> apply_refused_transport (sent empty_world) (put_connection wire_out_eth0)
        = Inr \<lparr>ok = True, body = None\<rparr>
   \<and> apply_refused_transport (sent empty_world @ [put_connection wire_out_eth0]) apply_request
        = Inr \<lparr>ok = False, body = None\<rparr>
   \<and> fst (updateConnection formatIp apply_refused_transport domain_eth0 empty_world) = Inr False"
proof -
  have p: "apply_refused_transport (sent empty_world) (put_connection wire_out_eth0)
        = Inr \<lparr>ok = True, body = None\<rparr>"
    by (simp add: apply_refused_transport_def put_connection_def apply_request_def)
  have a: "apply_refused_transport (sent empty_world @ [put_connection wire_out_eth0]) apply_request
        = Inr \<lparr>ok = False, body = None\<rparr>"
    by (simp add: apply_refused_transport_def)
  from updateConnection_apply_coupling [OF toApiConnection_domain_eth0 p a]
  have "fst (updateConnection formatIp apply_refused_transport domain_eth0 empty_world) = Inr False"
    by simp
  with toApiConnection_domain_eth0 p a show ?thesis by simp
qed

end
